theory Spec2Isabelle
  imports Main
begin

section \<open>The plugin builder service of pgo\<close>

text \<open>
  The development embeds \<^verbatim>\<open>internal/builder\<close>'s service (\<^verbatim>\<open>Service.Build\<close>,
  \<^verbatim>\<open>build\<close>, \<^verbatim>\<open>appendEnv\<close>, \<^verbatim>\<open>processSource\<close>, \<^verbatim>\<open>ensureGo\<close>,
  \<^verbatim>\<open>delegateBuildOrFail\<close>, \<^verbatim>\<open>ensureDocker\<close>, \<^verbatim>\<open>New\<close>) and the top-level
  \<^verbatim>\<open>pgo.Build\<close> of \<^verbatim>\<open>plugin.go\<close>.

  The service is an orchestrator: nearly everything it does is a call to a collaborator
  (the build specification's own methods, the snapshot, the file-transfer layer, the
  delegation registry, the remote client, the operating system). These are not part of
  the two source files. Each is a field of the record \<open>collab\<close> below, so every theorem
  holds for every behaviour the collaborators may have. Every collaborator call that
  touches the outside is recorded, in order, in the \<open>world\<close>: the list of events so far.
  A collaborator whose answer may depend on what happened before (does the file exist?
  is the remote builder up?) receives the world as its first argument.

  A Go pair \<^verbatim>\<open>(*T, error)\<close> is a pair \<open>'t option \<times> error option\<close> (\<open>None\<close> is
  \<^verbatim>\<open>nil\<close>); the specification a Go function receives by pointer and mutates is
  returned with the result. The context argument carries no cancellation and is left out.
\<close>

subsection \<open>Data\<close>

type_synonym bytes = string

record runtime =
  Os :: string
  Arch :: string

text \<open>
  \<^verbatim>\<open>Env\<close> is a Go map. Its keys are distinct and the order in which \<^verbatim>\<open>range\<close> visits
  them is not fixed by the language: the association list holds the entries in the order
  of the visit.
\<close>

record go_build =
  Runtime :: runtime
  Version :: string
  EnsureTheSameOs :: bool
  Env :: "(string \<times> string) list"

record source =
  Data :: bytes
  Location :: string

record build =
  Name :: string
  Source :: source
  Go :: go_build

record module_info =
  Scn :: int
  InfoRuntime :: runtime
  InfoName :: string

record build_module =
  Mode :: string
  ModuleData :: bytes
  Info :: module_info

text \<open>
  A delegation has a name (\<^verbatim>\<open>delegation.Name\<close>); the runtime it builds for stands for
  the "runtime-matching predicate" of the specification's data model.
\<close>

record delegation =
  DelegationName :: string
  DelegationRuntime :: runtime

record config =
  CfgRuntime :: runtime
  delegations :: "delegation list"

record service =
  cfg :: config

datatype modfile = ModFile string

record file_info =
  FileName :: string
  FileSize :: int

datatype error =
    ErrCollaborator string
  | ErrRuntimeMismatch runtime runtime
  | ErrFailedToCreate string error
  | ErrFailedToLocatePlugin error
  | ErrCouldNotGenerate error string string "string list" bytes

text \<open>
  An \<^verbatim>\<open>io.ReadCloser\<close>: the bytes that are still to be read, the error the stream gives
  instead of end-of-file (if any), and whether it was closed.
\<close>

record reader =
  pending :: bytes
  failure :: "error option"
  closed :: bool

text \<open>
  The snapshot's fields that the service reads (\<^verbatim>\<open>GoDir\<close>, \<^verbatim>\<open>PluginBuildPath\<close>,
  \<^verbatim>\<open>PluginDestPath\<close>, \<^verbatim>\<open>Created\<close>, \<^verbatim>\<open>buildMode\<close>), and the two accumulators of
  the specification's data model: the module descriptor fragments and the entry-point
  paths.
\<close>

record snapshot =
  buildMode :: string
  pkgSpec :: string
  GoDir :: string
  PluginBuildPath :: string
  PluginDestPath :: string
  Created :: int
  mods :: "modfile list"
  mains :: "string list"

text \<open>One entry of an unpacked source bundle.\<close>

datatype item =
    ModItem modfile
  | FileItem string file_info reader

datatype event =
    EvLogf string
  | EvPack source
  | EvNewSnapshot string string
  | EvExists string
  | EvMkdirAll string
  | EvCopy string string
  | EvDecode
  | EvReplaceDependencies bytes
  | EvStage string string file_info bytes
  | EvExec string "string list" string "string list"
  | EvDownload string
  | EvMatch runtime
  | EvIsUp string
  | EvRunDocker delegation build
  | EvClientBuild string build
  | EvStore string

type_synonym world = "event list"

subsection \<open>Collaborators\<close>

text \<open>
  The fields, by the Go symbol each stands for:
  \<^item> \<open>build_Init\<close>, \<open>build_Validate\<close>, \<open>GetModeWithSpec\<close>: the methods \<^verbatim>\<open>Init\<close>,
    \<^verbatim>\<open>Validate\<close> and \<^verbatim>\<open>GetModeWithSpec\<close> of \<^verbatim>\<open>build.Build\<close>;
  \<^item> \<open>source_Pack\<close>: \<^verbatim>\<open>Source.Pack\<close>, which gives the packed bytes or an error;
  \<^item> \<open>source_Decode\<close>, \<open>fs_Upload\<close>: what \<^verbatim>\<open>Source.Unpack\<close> rests on, the archive codec
    and the write of one staged file;
  \<^item> \<open>NewSnapshot\<close>, \<open>BasePluginURL\<close>, \<open>replaceDependencies\<close>, \<open>buildCmdArgs\<close>,
    \<open>snapshot_Env\<close>: \<^verbatim>\<open>NewSnapshot\<close> and the snapshot's methods of these names
    (\<^verbatim>\<open>Env\<close> for the last);
  \<^item> \<open>fs_Exists\<close>, \<open>fs_Copy\<close>, \<open>fs_DownloadWithURL\<close>: the file-transfer service;
    \<open>os_MkdirAll\<close>: \<^verbatim>\<open>os.MkdirAll\<close>; \<open>exec_CombinedOutput\<close>: running the command;
  \<^item> \<open>delegations_Match\<close>, \<open>baseURL\<close>, \<open>client_IsUp\<close>, \<open>client_Build\<close>, \<open>runDocker\<close>:
    the registry's \<^verbatim>\<open>Match\<close>, the delegation's \<^verbatim>\<open>baseURL\<close>, the client's \<^verbatim>\<open>IsUp\<close> and
    \<^verbatim>\<open>Build\<close>, and \<^verbatim>\<open>Service.runDocker\<close>;
  \<^item> \<open>AsScn\<close>: \<^verbatim>\<open>build.AsScn\<close>; \<open>path_Join\<close>: \<^verbatim>\<open>path.Join\<close> of two elements;
    \<open>runtime_Init\<close>: \<^verbatim>\<open>Runtime.Init\<close>; \<open>module_Store\<close>: \<^verbatim>\<open>Module.Store\<close>, called on
    whatever pointer \<^verbatim>\<open>Build\<close> returned.

  A collaborator that is handed the specification by pointer (\<^verbatim>\<open>runDocker\<close>, the
  client's \<^verbatim>\<open>Build\<close>, \<^verbatim>\<open>buildCmdArgs\<close>) is taken to read it only.
\<close>

record collab =
  build_Init :: "build \<Rightarrow> build"
  build_Validate :: "build \<Rightarrow> error option"
  GetModeWithSpec :: "build \<Rightarrow> string \<times> string"
  source_Pack :: "world \<Rightarrow> source \<Rightarrow> error + bytes"
  source_Decode :: "world \<Rightarrow> bytes \<Rightarrow> error + item list"
  fs_Upload :: "world \<Rightarrow> string \<Rightarrow> string \<Rightarrow> file_info \<Rightarrow> bytes \<Rightarrow> error option"
  NewSnapshot :: "world \<Rightarrow> string \<Rightarrow> string \<Rightarrow> go_build \<Rightarrow> snapshot"
  BasePluginURL :: "snapshot \<Rightarrow> string"
  replaceDependencies :: "snapshot \<Rightarrow> bytes \<Rightarrow> error + bytes"
  buildCmdArgs :: "snapshot \<Rightarrow> build \<Rightarrow> string \<times> string list"
  snapshot_Env :: "snapshot \<Rightarrow> string list"
  fs_Exists :: "world \<Rightarrow> string \<Rightarrow> bool"
  os_MkdirAll :: "world \<Rightarrow> string \<Rightarrow> error option"
  fs_Copy :: "world \<Rightarrow> string \<Rightarrow> string \<Rightarrow> error option"
  fs_DownloadWithURL :: "world \<Rightarrow> string \<Rightarrow> error + bytes"
  exec_CombinedOutput ::
    "world \<Rightarrow> string \<Rightarrow> string list \<Rightarrow> string \<Rightarrow> string list \<Rightarrow> bytes \<times> error option"
  delegations_Match :: "delegation list \<Rightarrow> runtime \<Rightarrow> delegation option"
  baseURL :: "delegation \<Rightarrow> string"
  client_IsUp :: "world \<Rightarrow> string \<Rightarrow> bool"
  runDocker :: "world \<Rightarrow> delegation \<Rightarrow> build \<Rightarrow> error option"
  client_Build :: "world \<Rightarrow> string \<Rightarrow> build \<Rightarrow> build_module option \<times> error option"
  AsScn :: "int \<Rightarrow> int"
  path_Join :: "string \<Rightarrow> string \<Rightarrow> string"
  runtime_Init :: "runtime \<Rightarrow> runtime"
  module_Store :: "world \<Rightarrow> build_module option \<Rightarrow> string \<Rightarrow> error option"

subsection \<open>Go library functions the service calls\<close>

text \<open>
  \<^verbatim>\<open>path.Ext\<close>: the suffix beginning at the final dot in the final slash-separated
  element of the path, empty if there is no dot. The library scans from the end and
  stops at a slash.
\<close>

fun ext_scan :: "string \<Rightarrow> string \<Rightarrow> string" where
  "ext_scan [] acc = []"
| "ext_scan (c # cs) acc =
     (if c = CHR ''/'' then []
      else if c = CHR ''.'' then c # acc
      else ext_scan cs (c # acc))"

definition path_Ext :: "string \<Rightarrow> string" where
  "path_Ext p = ext_scan (rev p) []"

text \<open>\<^verbatim>\<open>bytes.Contains\<close>: whether the second slice occurs in the first.\<close>

fun bytes_Contains :: "bytes \<Rightarrow> bytes \<Rightarrow> bool" where
  "bytes_Contains [] sub = (sub = [])"
| "bytes_Contains (c # cs) sub =
     (take (length sub) (c # cs) = sub \<or> bytes_Contains cs sub)"

text \<open>\<^verbatim>\<open>strings.Replace(s, old, new, 1)\<close>: the first occurrence of \<open>old\<close> replaced.\<close>

fun replace_first :: "string \<Rightarrow> string \<Rightarrow> string \<Rightarrow> string" where
  "replace_first old new [] = (if old = [] then new else [])"
| "replace_first old new (c # cs) =
     (if take (length old) (c # cs) = old then new @ drop (length old) (c # cs)
      else c # replace_first old new cs)"

text \<open>
  \<^verbatim>\<open>io.ReadAll\<close> returns what could be read and the stream's error, and leaves the
  stream drained. \<^verbatim>\<open>io.NopCloser(bytes.NewReader(b))\<close> is a fresh stream over \<open>b\<close>.
\<close>

definition io_ReadAll :: "reader \<Rightarrow> bytes \<times> error option \<times> reader" where
  "io_ReadAll r = (pending r, failure r, r\<lparr>pending := []\<rparr>)"

definition reader_Close :: "reader \<Rightarrow> reader" where
  "reader_Close r = r\<lparr>closed := True\<rparr>"

definition NopCloser_NewReader :: "bytes \<Rightarrow> reader" where
  "NopCloser_NewReader b = \<lparr>pending = b, failure = None, closed = False\<rparr>"

text \<open>
  What the child process sees for a variable: \<^verbatim>\<open>os/exec\<close> documents that, if the
  environment slice holds duplicate keys, only the last value for each key is used. The
  key of an entry is the text before its first \<^verbatim>\<open>=\<close>.
\<close>

definition entry_key :: "string \<Rightarrow> string" where
  "entry_key e = takeWhile (\<lambda>c. c \<noteq> CHR ''='') e"

definition entry_value :: "string \<Rightarrow> string" where
  "entry_value e = tl (dropWhile (\<lambda>c. c \<noteq> CHR ''='') e)"

fun env_lookup :: "string list \<Rightarrow> string \<Rightarrow> string option" where
  "env_lookup [] k = None"
| "env_lookup (e # es) k =
     (case env_lookup es k of
        Some v \<Rightarrow> Some v
      | None \<Rightarrow> if CHR ''='' \<in> set e \<and> entry_key e = k then Some (entry_value e) else None)"

subsection \<open>Collaborators modelled from the specification\<close>

text \<open>
  Modelled from the spec: \<^verbatim>\<open>Runtime.ValidateOsAndArch\<close> is not in the source files.
  "Given the host's (OS, architecture) and the spec's requested runtime, returns success
  if they are equal; otherwise returns a mismatch error."
\<close>

definition ValidateOsAndArch :: "runtime \<Rightarrow> runtime \<Rightarrow> error option" where
  "ValidateOsAndArch host requested =
     (if Os host = Os requested \<and> Arch host = Arch requested then None
      else Some (ErrRuntimeMismatch host requested))"

text \<open>
  Modelled from the spec: \<^verbatim>\<open>Snapshot.AppendMod\<close> is not in the source files. "The
  fragment is parsed and appended to the snapshot's accumulated module list."
\<close>

definition AppendMod :: "snapshot \<Rightarrow> modfile \<Rightarrow> snapshot" where
  "AppendMod s m = s\<lparr>mods := mods s @ [m]\<rparr>"

text \<open>
  Modelled from the spec: \<^verbatim>\<open>Snapshot.AppendMain\<close> is not in the source files. "The
  file's path is recorded in the snapshot's entry-point set."
\<close>

definition AppendMain :: "snapshot \<Rightarrow> string \<Rightarrow> snapshot" where
  "AppendMain s p = s\<lparr>mains := mains s @ [p]\<rparr>"

text \<open>
  Modelled from the spec: the inference of the build mode is not in the source files.
  "A workspace containing such a marker builds as a standalone program rather than a
  plugin unless plugin mode was explicitly requested"; "a bundle with an entry-point file
  but plugin mode requested still treats it as plugin-target (explicit mode wins over
  inference)". Without an entry point the requested mode stands.
\<close>

definition inferredMode :: "snapshot \<Rightarrow> string" where
  "inferredMode s =
     (if buildMode s = ''plugin'' then ''plugin''
      else if mains s = [] then buildMode s
      else ''program'')"

subsection \<open>The service\<close>

definition logf :: "string \<Rightarrow> world \<Rightarrow> world" where
  "logf template w = w @ [EvLogf template]"

text \<open>\<^verbatim>\<open>appendEnv\<close>: \<^verbatim>\<open>fmt.Sprintf("%v=%v", k, v)\<close> of two strings is \<open>k @ ''='' @ v\<close>.\<close>

definition env_entry :: "string \<times> string \<Rightarrow> string" where
  "env_entry kv = fst kv @ ''='' @ snd kv"

fun appendEnv_loop :: "(string \<times> string) list \<Rightarrow> string list \<Rightarrow> string list" where
  "appendEnv_loop [] env = env"
| "appendEnv_loop (kv # rest) env = appendEnv_loop rest (env @ [env_entry kv])"

definition appendEnv :: "(string \<times> string) list \<Rightarrow> string list \<Rightarrow> string list" where
  "appendEnv pairs env = (if length pairs > 0 then appendEnv_loop pairs env else env)"

definition mainFragment :: bytes where
  "mainFragment = ''package main''"

definition processSource ::
  "collab \<Rightarrow> reader \<Rightarrow> string \<Rightarrow> file_info \<Rightarrow> snapshot \<Rightarrow> bool \<Rightarrow> world \<Rightarrow>
   (file_info \<times> reader \<times> error option) \<times> snapshot \<times> world" where
  "processSource x rd parent info snap replace w =
     (case io_ReadAll rd of
        (src, Some err, rd1) \<Rightarrow> ((info, rd1, Some err), snap, w)
      | (src, None, rd1) \<Rightarrow>
          let rd2 = reader_Close rd1 in
          if replace then
            (case replaceDependencies x snap src of
               Inl err \<Rightarrow> ((info, rd2, Some err), snap, w @ [EvReplaceDependencies src])
             | Inr src' \<Rightarrow>
                 ((info, NopCloser_NewReader src', None),
                  (if bytes_Contains src' mainFragment
                   then AppendMain snap (path_Join x parent (FileName info)) else snap),
                  w @ [EvReplaceDependencies src]))
          else
            ((info, NopCloser_NewReader src, None),
             (if bytes_Contains src mainFragment
              then AppendMain snap (path_Join x parent (FileName info)) else snap),
             w))"

text \<open>The per-file callback that \<^verbatim>\<open>Build\<close> hands to \<^verbatim>\<open>Unpack\<close> (lines 52 to 60).\<close>

definition onFile ::
  "collab \<Rightarrow> snapshot \<Rightarrow> string \<Rightarrow> string \<Rightarrow> file_info \<Rightarrow> reader \<Rightarrow> world \<Rightarrow>
   (file_info \<times> reader \<times> error option) \<times> snapshot \<times> world" where
  "onFile x snap mode parent info rd w =
     (let ext = path_Ext (FileName info) in
      if ext = ''.go'' \<or> ext = ''.mod'' \<or> ext = ''.sum''
      then processSource x rd parent info snap (mode = ''plugin'') w
      else ((info, rd, None), snap, w))"

definition goDownloadURL :: "string \<Rightarrow> string \<Rightarrow> string \<Rightarrow> string" where
  "goDownloadURL version os arch =
     ''https://dl.google.com/go/go'' @ version @ ''.'' @ os @ ''-'' @ arch @ ''.tar.gz''"

definition ensureGo ::
  "collab \<Rightarrow> service \<Rightarrow> snapshot \<Rightarrow> string \<Rightarrow> world \<Rightarrow> error option \<times> world" where
  "ensureGo x s snap version w =
     (let verLocation = path_Join x (GoDir snap) (''go'' @ version);
          binary = path_Join x verLocation ''go'';
          ok = fs_Exists x w binary;
          w1 = logf ''checking binary[%v]: %v\<newline>'' (w @ [EvExists binary])
      in if ok then (None, w1)
         else
           (case os_MkdirAll x w1 verLocation of
              Some err \<Rightarrow> (Some (ErrFailedToCreate verLocation err), w1 @ [EvMkdirAll verLocation])
            | None \<Rightarrow>
                let w2 = w1 @ [EvMkdirAll verLocation];
                    URL = goDownloadURL version (Os (CfgRuntime (cfg s))) (Arch (CfgRuntime (cfg s)));
                    URL = replace_first ''://'' '':'' URL @ ''/tar://'';
                    w3 = logf ''installing go %v %v %v\<newline>'' w2;
                    err = fs_Copy x w3 URL verLocation;
                    w4 = w3 @ [EvCopy URL verLocation]
                in (case err of
                      Some e \<Rightarrow> (err, logf ''failed to install go %v\<newline>'' w4)
                    | None \<Rightarrow> (err, w4))))"

definition ensureDocker ::
  "collab \<Rightarrow> service \<Rightarrow> delegation \<Rightarrow> build \<Rightarrow> world \<Rightarrow> error option \<times> world" where
  "ensureDocker x s d spec w =
     (if client_IsUp x w (baseURL x d)
      then (None, logf ''%v is up\<newline>'' (w @ [EvIsUp (baseURL x d)]))
      else (runDocker x (w @ [EvIsUp (baseURL x d)]) d spec,
            w @ [EvIsUp (baseURL x d)] @ [EvRunDocker d spec]))"

definition delegateBuildOrFail ::
  "collab \<Rightarrow> service \<Rightarrow> build \<Rightarrow> error option \<Rightarrow> world \<Rightarrow>
   (build_module option \<times> error option) \<times> build \<times> world" where
  "delegateBuildOrFail x s spec0 err w =
     (let spec = spec0\<lparr>Go := (Go spec0)\<lparr>EnsureTheSameOs := False\<rparr>\<rparr>;
          w1 = w @ [EvMatch (Runtime (Go spec))]
      in case delegations_Match x (delegations (cfg s)) (Runtime (Go spec)) of
           None \<Rightarrow> ((None, err), spec, w1)
         | Some d \<Rightarrow>
             (case ensureDocker x s d spec w1 of
                (Some e, w2) \<Rightarrow> ((None, Some e), spec, w2)
              | (None, w2) \<Rightarrow>
                  (client_Build x w2 (baseURL x d) spec, spec,
                   w2 @ [EvClientBuild (baseURL x d) spec])))"

text \<open>\<^verbatim>\<open>Service.build\<close>: the compiler invocation.\<close>

definition couldNotGenerate :: string where
  "couldNotGenerate =
     ''couldn'' @ [CHR 0x27] @ ''t generate plugin due to the: %w at: %s\<newline>'' @ [CHR 0x09] @
     ''stdin: %s\<newline>'' @ [CHR 0x09] @ ''stdount: %s''"

definition build_cmd ::
  "collab \<Rightarrow> snapshot \<Rightarrow> build \<Rightarrow> world \<Rightarrow> error option \<times> world" where
  "build_cmd x snap spec w =
     (let (cmd, args) = buildCmdArgs x snap spec;
          dir = PluginBuildPath snap;
          env = appendEnv (Env (Go spec)) (snapshot_Env x snap);
          w1 = logf ''building plugin at %v: %v'' w;
          (output, err) = exec_CombinedOutput x w1 cmd args dir env;
          w2 = w1 @ [EvExec cmd args dir env]
      in case err of
           Some e \<Rightarrow> (Some (ErrCouldNotGenerate e dir cmd args output), logf couldNotGenerate w2)
         | None \<Rightarrow> (None, w2))"

text \<open>
  Modelled from the spec: \<^verbatim>\<open>Source.Unpack\<close> is not in the source files. It "drives
  unpacking of the source bundle into the build directory, invoking two callbacks per
  encountered file": the descriptor callback on each module descriptor fragment, the file
  callback on each file, whose returned stream is what is staged under the destination.
  The first error ends the unpacking.
\<close>

fun unpack_items ::
  "collab \<Rightarrow> string \<Rightarrow> (modfile \<Rightarrow> snapshot \<Rightarrow> snapshot) \<Rightarrow>
   (string \<Rightarrow> file_info \<Rightarrow> reader \<Rightarrow> snapshot \<Rightarrow> world \<Rightarrow>
      (file_info \<times> reader \<times> error option) \<times> snapshot \<times> world) \<Rightarrow>
   item list \<Rightarrow> snapshot \<Rightarrow> world \<Rightarrow> error option \<times> snapshot \<times> world" where
  "unpack_items x dest onMod onEntry [] snap w = (None, snap, w)"
| "unpack_items x dest onMod onEntry (ModItem m # rest) snap w =
     unpack_items x dest onMod onEntry rest (onMod m snap) w"
| "unpack_items x dest onMod onEntry (FileItem parent info rd # rest) snap w =
     (case onEntry parent info rd snap w of
        ((info', rd', Some err), snap', w') \<Rightarrow> (Some err, snap', w')
      | ((info', rd', None), snap', w') \<Rightarrow>
          (case io_ReadAll rd' of
             (content, Some err, rd'') \<Rightarrow> (Some err, snap', w')
           | (content, None, rd'') \<Rightarrow>
               (case fs_Upload x w' dest parent info' content of
                  Some err \<Rightarrow> (Some err, snap', w' @ [EvStage dest parent info' content])
                | None \<Rightarrow>
                    unpack_items x dest onMod onEntry rest snap'
                      (w' @ [EvStage dest parent info' content]))))"

definition Unpack ::
  "collab \<Rightarrow> source \<Rightarrow> string \<Rightarrow> (modfile \<Rightarrow> snapshot \<Rightarrow> snapshot) \<Rightarrow>
   (string \<Rightarrow> file_info \<Rightarrow> reader \<Rightarrow> snapshot \<Rightarrow> world \<Rightarrow>
      (file_info \<times> reader \<times> error option) \<times> snapshot \<times> world) \<Rightarrow>
   snapshot \<Rightarrow> world \<Rightarrow> error option \<times> snapshot \<times> world" where
  "Unpack x src dest onMod onEntry snap w =
     (case source_Decode x w (Data src) of
        Inl err \<Rightarrow> (Some err, snap, w @ [EvDecode])
      | Inr items \<Rightarrow> unpack_items x dest onMod onEntry items snap (w @ [EvDecode]))"

text \<open>
  \<^verbatim>\<open>Service.Build\<close>, lines 42 to 82: the snapshot, the toolchain, the unpacking, the
  compiler and the module.
\<close>

definition Build_compile ::
  "collab \<Rightarrow> service \<Rightarrow> build \<Rightarrow> world \<Rightarrow>
   (build_module option \<times> error option) \<times> build \<times> world" where
  "Build_compile x s spec w1 =
     (let (mode, pkg) = GetModeWithSpec x spec;
          snap = NewSnapshot x w1 mode pkg (Go spec);
          w2 = w1 @ [EvNewSnapshot mode pkg]
      in (case ensureGo x s snap (Version (Go spec)) w2 of
            (Some err, w3) \<Rightarrow> ((None, Some err), spec, w3)
          | (None, w3) \<Rightarrow>
              (case Unpack x (Source spec) (BasePluginURL x snap)
                      (\<lambda>m sn. AppendMod sn m)
                      (\<lambda>parent info rd sn. onFile x sn mode parent info rd)
                      snap w3 of
                 (Some err, snap1, w4) \<Rightarrow> ((None, Some err), spec, w4)
               | (None, snap1, w4) \<Rightarrow>
                   (case build_cmd x snap1 spec w4 of
                      (Some err, w5) \<Rightarrow> ((None, Some err), spec, w5)
                    | (None, w5) \<Rightarrow>
                        (case fs_DownloadWithURL x w5 (PluginDestPath snap1) of
                           Inl err \<Rightarrow>
                             ((None, Some (ErrFailedToLocatePlugin err)), spec,
                              w5 @ [EvDownload (PluginDestPath snap1)])
                         | Inr d \<Rightarrow>
                             ((Some \<lparr>Mode = buildMode snap1, ModuleData = d,
                                     Info = \<lparr>Scn = AsScn x (Created snap1),
                                             InfoRuntime = Runtime (Go spec),
                                             InfoName = Name spec\<rparr>\<rparr>, None),
                              spec, w5 @ [EvDownload (PluginDestPath snap1)]))))))"

text \<open>
  \<^verbatim>\<open>Service.Build\<close>, lines 37 to 82: the local build. A bundle that is not packed yet
  is packed first.
\<close>

definition Build_local ::
  "collab \<Rightarrow> service \<Rightarrow> build \<Rightarrow> world \<Rightarrow>
   (build_module option \<times> error option) \<times> build \<times> world" where
  "Build_local x s spec w =
     (if length (Data (Source spec)) = 0
      then (case source_Pack x w (Source spec) of
              Inl err \<Rightarrow> ((None, Some err), spec, w @ [EvPack (Source spec)])
            | Inr d \<Rightarrow>
                Build_compile x s (spec\<lparr>Source := (Source spec)\<lparr>Data := d\<rparr>\<rparr>)
                  (w @ [EvPack (Source spec)]))
      else Build_compile x s spec w)"

text \<open>\<^verbatim>\<open>Service.Build\<close>.\<close>

definition Build ::
  "collab \<Rightarrow> service \<Rightarrow> build \<Rightarrow> (build \<Rightarrow> build) list \<Rightarrow> world \<Rightarrow>
   (build_module option \<times> error option) \<times> build \<times> world" where
  "Build x s buildSpec opts w =
     (let spec = build_Init x (fold (\<lambda>opt b. opt b) opts buildSpec) in
      case build_Validate x spec of
        Some err \<Rightarrow> ((None, Some err), spec, w)
      | None \<Rightarrow>
          let err = ValidateOsAndArch (CfgRuntime (cfg s)) (Runtime (Go spec)) in
          if err \<noteq> None \<or> EnsureTheSameOs (Go spec)
          then delegateBuildOrFail x s spec err w
          else Build_local x s spec w)"

text \<open>\<^verbatim>\<open>New\<close>: the host runtime is initialised, then the options are applied.\<close>

definition New :: "collab \<Rightarrow> config \<Rightarrow> (config \<Rightarrow> config) list \<Rightarrow> service" where
  "New x c opts =
     \<lparr>cfg = fold (\<lambda>opt c'. opt c') opts (c\<lparr>CfgRuntime := runtime_Init x (CfgRuntime c)\<rparr>)\<rparr>"

subsection \<open>The top-level entry point\<close>

text \<open>
  \<^verbatim>\<open>pgo.Build\<close> of \<^verbatim>\<open>plugin.go\<close>. The \<^verbatim>\<open>Options\<close> type and its methods are not in
  the source files: the type is a parameter and its methods are the fields of
  \<open>options_api\<close>; \<^verbatim>\<open>builder.WithLinuxAmd64\<close> is the argument \<open>withLinuxAmd64\<close>.
\<close>

record 'o options_api =
  options_Init :: "'o \<Rightarrow> 'o"
  options_Validate :: "'o \<Rightarrow> error option"
  options_buildSpec :: "'o \<Rightarrow> build"
  options_DestURL :: "'o \<Rightarrow> string"

definition pgo_Build ::
  "collab \<Rightarrow> 'o options_api \<Rightarrow> (config \<Rightarrow> config) \<Rightarrow> 'o \<Rightarrow> (build \<Rightarrow> build) list \<Rightarrow>
   world \<Rightarrow> error option \<times> world" where
  "pgo_Build x api withLinuxAmd64 option0 opts w =
     (let option = options_Init api option0 in
      case options_Validate api option of
        Some err \<Rightarrow> (Some err, w)
      | None \<Rightarrow>
          let aBuilder = New x \<lparr>CfgRuntime = \<lparr>Os = [], Arch = []\<rparr>, delegations = []\<rparr>
                           [withLinuxAmd64];
              spec = options_buildSpec api option
          in (case Build x aBuilder spec opts w of
               ((plugin, Some err), spec', w1) \<Rightarrow> (Some err, w1)
             | ((plugin, None), spec', w1) \<Rightarrow>
                 (module_Store x w1 plugin (options_DestURL api option),
                  w1 @ [EvStore (options_DestURL api option)])))"

subsection \<open>Observing the world\<close>

text \<open>
  The events of the delegation path: the registry search, the liveness probe, the
  container bring-up and the forwarded build. \<open>adds_only P w w'\<close>: the world \<open>w'\<close> is
  \<open>w\<close> followed by events that all satisfy \<open>P\<close>.
\<close>

definition is_delegation_event :: "event \<Rightarrow> bool" where
  "is_delegation_event e =
     (case e of EvMatch r \<Rightarrow> True | EvIsUp u \<Rightarrow> True | EvRunDocker d b \<Rightarrow> True
      | EvClientBuild u b \<Rightarrow> True | _ \<Rightarrow> False)"

abbreviation local_event :: "event \<Rightarrow> bool" where
  "local_event e \<equiv> \<not> is_delegation_event e"

definition adds_only :: "(event \<Rightarrow> bool) \<Rightarrow> world \<Rightarrow> world \<Rightarrow> bool" where
  "adds_only P w w' = (take (length w) w' = w \<and> list_all P (drop (length w) w'))"

text \<open>The two steps of a toolchain install: creating the directory, fetching and extracting.\<close>

definition is_copy :: "event \<Rightarrow> bool" where
  "is_copy e = (case e of EvCopy u d \<Rightarrow> True | _ \<Rightarrow> False)"

definition is_mkdir :: "event \<Rightarrow> bool" where
  "is_mkdir e = (case e of EvMkdirAll d \<Rightarrow> True | _ \<Rightarrow> False)"

subsection \<open>A concrete setting\<close>

text \<open>
  One host, one registered delegation and one behaviour of every collaborator, on which
  the theorems below are instantiated: validation wants a name, packing and unpacking
  succeed, the bundle holds a descriptor, a program file and a text file, and the toolchain
  is present once a copy has been made.
\<close>

definition linux_amd64 :: runtime where
  "linux_amd64 = \<lparr>Os = ''linux'', Arch = ''amd64''\<rparr>"

definition darwin_arm64 :: runtime where
  "darwin_arm64 = \<lparr>Os = ''darwin'', Arch = ''arm64''\<rparr>"

definition darwin_builder :: delegation where
  "darwin_builder = \<lparr>DelegationName = ''darwin'', DelegationRuntime = darwin_arm64\<rparr>"

definition a_service :: service where
  "a_service = \<lparr>cfg = \<lparr>CfgRuntime = linux_amd64, delegations = [darwin_builder]\<rparr>\<rparr>"

definition a_spec :: build where
  "a_spec =
     \<lparr>Name = ''fee'',
      Source = \<lparr>Data = ''zip'', Location = ''/src/fee''\<rparr>,
      Go = \<lparr>Runtime = linux_amd64, Version = ''1.17'', EnsureTheSameOs = False,
            Env = [(''GOFLAGS'', ''-mod=mod'')]\<rparr>\<rparr>"

definition a_snapshot :: snapshot where
  "a_snapshot =
     \<lparr>buildMode = ''plugin'', pkgSpec = ''.'', GoDir = ''/opt/sdk'',
      PluginBuildPath = ''/tmp/build'', PluginDestPath = ''/tmp/build/main.so'',
      Created = 1000, mods = [], mains = []\<rparr>"

definition main_go :: file_info where
  "main_go = \<lparr>FileName = ''main.go'', FileSize = 27\<rparr>"

definition readme_txt :: file_info where
  "readme_txt = \<lparr>FileName = ''README.txt'', FileSize = 12\<rparr>"

definition main_go_reader :: reader where
  "main_go_reader = NopCloser_NewReader ''package main func main() {}''"

definition readme_reader :: reader where
  "readme_reader = NopCloser_NewReader ''package main''"

definition a_collab :: collab where
  "a_collab =
     \<lparr>build_Init = (\<lambda>b. b),
      build_Validate = (\<lambda>b. if Name b = [] then Some (ErrCollaborator ''name was empty'') else None),
      GetModeWithSpec = (\<lambda>b. (''plugin'', ''.'')),
      source_Pack = (\<lambda>w s. Inr ''zip''),
      source_Decode = (\<lambda>w d. Inr [ModItem (ModFile ''fee''),
                                    FileItem ''fee'' main_go main_go_reader,
                                    FileItem ''fee'' readme_txt readme_reader]),
      fs_Upload = (\<lambda>w dest parent info content. None),
      NewSnapshot = (\<lambda>w mode pkg g. a_snapshot\<lparr>buildMode := mode, pkgSpec := pkg\<rparr>),
      BasePluginURL = (\<lambda>sn. PluginBuildPath sn),
      replaceDependencies = (\<lambda>sn b. Inr (b @ '' // pinned'')),
      buildCmdArgs = (\<lambda>sn b. (''go'', [''build'', ''-buildmode=plugin''])),
      snapshot_Env = (\<lambda>sn. [''GOROOT=/opt/sdk/go1.17/go'']),
      fs_Exists = (\<lambda>w p. list_ex is_copy w),
      os_MkdirAll = (\<lambda>w p. None),
      fs_Copy = (\<lambda>w u d. None),
      fs_DownloadWithURL = (\<lambda>w u. Inr ''ELF''),
      exec_CombinedOutput = (\<lambda>w cmd args dir env. (''ok'', None)),
      delegations_Match = (\<lambda>ds r. find (\<lambda>d. DelegationRuntime d = r) ds),
      baseURL = (\<lambda>d. ''http://'' @ DelegationName d),
      client_IsUp = (\<lambda>w u. True),
      runDocker = (\<lambda>w d b. None),
      client_Build = (\<lambda>w u b.
        (Some \<lparr>Mode = ''plugin'', ModuleData = ''Mach-O'',
                Info = \<lparr>Scn = 7, InfoRuntime = Runtime (Go b), InfoName = Name b\<rparr>\<rparr>, None)),
      AsScn = (\<lambda>t. t),
      path_Join = (\<lambda>a b. a @ ''/'' @ b),
      runtime_Init = (\<lambda>r. linux_amd64),
      module_Store = (\<lambda>w m dest. None)\<rparr>"

text \<open>The same setting with the network down: nothing can be copied, nothing appears.\<close>

definition offline_collab :: collab where
  "offline_collab =
     a_collab\<lparr>fs_Exists := (\<lambda>w p. False),
              fs_Copy := (\<lambda>w u d. Some (ErrCollaborator ''network is unreachable''))\<rparr>"

definition a_options_api :: "build options_api" where
  "a_options_api =
     \<lparr>options_Init = (\<lambda>b. b),
      options_Validate =
        (\<lambda>b. if Location (Source b) = [] then Some (ErrCollaborator ''source was empty'')
             else None),
      options_buildSpec = (\<lambda>b. b), options_DestURL = (\<lambda>b. ''/plugins/'' @ Name b)\<rparr>"

section \<open>Properties\<close>

lemmas setting_defs = a_collab_def offline_collab_def a_service_def a_spec_def a_snapshot_def
  linux_amd64_def darwin_arm64_def darwin_builder_def main_go_def readme_txt_def
  main_go_reader_def readme_reader_def a_options_api_def

lemmas service_defs = Build_def Build_local_def Build_compile_def delegateBuildOrFail_def
  ensureDocker_def ensureGo_def build_cmd_def Unpack_def onFile_def processSource_def
  appendEnv_def env_entry_def logf_def goDownloadURL_def ValidateOsAndArch_def
  io_ReadAll_def reader_Close_def NopCloser_NewReader_def AppendMain_def AppendMod_def
  path_Ext_def mainFragment_def is_copy_def is_mkdir_def is_delegation_event_def
  couldNotGenerate_def inferredMode_def

subsection \<open>The library functions\<close>

lemma path_Ext_examples:
  "path_Ext ''main.go'' = ''.go''" "path_Ext ''go.mod'' = ''.mod''"
  "path_Ext ''go.sum'' = ''.sum''" "path_Ext ''a.go/README'' = []"
  "path_Ext ''Makefile'' = []" "path_Ext ''x.tar.gz'' = ''.gz''"
  by (simp_all add: path_Ext_def)

lemma bytes_Contains_iff: "bytes_Contains s sub \<longleftrightarrow> (\<exists>p q. s = p @ sub @ q)"
proof (induction s)
  case Nil
  then show ?case by auto
next
  case (Cons c cs)
  have "take (length sub) (c # cs) = sub \<longleftrightarrow> (\<exists>q. c # cs = sub @ q)"
    by (metis append_eq_conv_conj)
  moreover have "(\<exists>p q. c # cs = p @ sub @ q) \<longleftrightarrow> (\<exists>q. c # cs = sub @ q) \<or> (\<exists>p q. cs = p @ sub @ q)"
  proof
    assume "\<exists>p q. c # cs = p @ sub @ q"
    then obtain p q where pq: "c # cs = p @ sub @ q" by blast
    show "(\<exists>q. c # cs = sub @ q) \<or> (\<exists>p q. cs = p @ sub @ q)"
    proof (cases p)
      case Nil
      with pq show ?thesis by auto
    next
      case (Cons a p')
      with pq have "cs = p' @ sub @ q" by simp
      then show ?thesis by blast
    qed
  next
    assume "(\<exists>q. c # cs = sub @ q) \<or> (\<exists>p q. cs = p @ sub @ q)"
    then show "\<exists>p q. c # cs = p @ sub @ q"
    proof
      assume "\<exists>q. c # cs = sub @ q"
      then obtain q where "c # cs = [] @ sub @ q" by auto
      then show ?thesis by blast
    next
      assume "\<exists>p q. cs = p @ sub @ q"
      then obtain p q where "c # cs = (c # p) @ sub @ q" by auto
      then show ?thesis by blast
    qed
  qed
  ultimately show ?case using Cons.IH by simp
qed

subsection \<open>The compiler's environment\<close>

lemma appendEnv_loop_eq: "appendEnv_loop pairs env = env @ map env_entry pairs"
  by (induction pairs arbitrary: env) simp_all

lemma appendEnv_eq: "appendEnv pairs env = env @ map env_entry pairs"
  by (cases pairs) (simp_all add: appendEnv_def appendEnv_loop_eq)

lemma env_lookup_append:
  "env_lookup (xs @ ys) k =
     (case env_lookup ys k of Some v \<Rightarrow> Some v | None \<Rightarrow> env_lookup xs k)"
  by (induction xs) (auto split: option.splits)

lemma entry_key_env_entry: "CHR ''='' \<notin> set k \<Longrightarrow> entry_key (env_entry (k, v)) = k"
  by (simp add: entry_key_def env_entry_def takeWhile_append)

lemma entry_value_env_entry: "CHR ''='' \<notin> set k \<Longrightarrow> entry_value (env_entry (k, v)) = v"
  by (simp add: entry_value_def env_entry_def dropWhile_append)

lemma env_lookup_absent:
  "\<forall>kv\<in>set pairs. CHR ''='' \<notin> set (fst kv) \<Longrightarrow> k \<notin> fst ` set pairs \<Longrightarrow>
   env_lookup (map env_entry pairs) k = None"
  by (induction pairs) (auto simp: entry_key_env_entry split: option.splits)

lemma env_lookup_present:
  "distinct (map fst pairs) \<Longrightarrow> \<forall>kv\<in>set pairs. CHR ''='' \<notin> set (fst kv) \<Longrightarrow>
   (k, v) \<in> set pairs \<Longrightarrow> env_lookup (map env_entry pairs) k = Some v"
proof (induction pairs)
  case Nil
  then show ?case by simp
next
  case (Cons p ps)
  show ?case
  proof (cases "(k, v) \<in> set ps")
    case True
    with Cons show ?thesis by simp
  next
    case False
    with Cons.prems have p: "p = (k, v)" by simp
    with Cons.prems have "k \<notin> fst ` set ps" by simp
    with Cons.prems have "env_lookup (map env_entry ps) k = None"
      by (simp add: env_lookup_absent)
    moreover from Cons.prems p
    have "entry_key (env_entry p) = k" "entry_value (env_entry p) = v"
      by (simp_all add: entry_key_env_entry entry_value_env_entry)
    moreover have "CHR ''='' \<in> set (env_entry p)"
      by (simp add: env_entry_def)
    ultimately show ?thesis by simp
  qed
qed

text \<open>
  C8. \<^verbatim>\<open>appendEnv\<close> returns the snapshot's entries followed by one entry \<open>k=v\<close> for each
  pair of the specification's map, in the order the map is visited: every snapshot entry
  and every explicit pair is in the result. When the map's keys are distinct and hold no
  \<open>=\<close>, the value the child process sees for an explicit key is the explicit value,
  whatever the snapshot gave for that key. The command that \<^verbatim>\<open>build\<close> runs has this
  list as its environment.
\<close>

theorem appendEnv_snapshot_then_explicit:
  "appendEnv pairs env = env @ map env_entry pairs
   \<and> set env \<subseteq> set (appendEnv pairs env)
   \<and> env_entry ` set pairs \<subseteq> set (appendEnv pairs env)
   \<and> (distinct (map fst pairs) \<and> (\<forall>kv\<in>set pairs. CHR ''='' \<notin> set (fst kv))
        \<and> (k, v) \<in> set pairs
        \<longrightarrow> env_lookup (appendEnv pairs env) k = Some v)
   \<and> EvExec (fst (buildCmdArgs x snap spec)) (snd (buildCmdArgs x snap spec))
        (PluginBuildPath snap) (snapshot_Env x snap @ map env_entry (Env (Go spec)))
      \<in> set (snd (build_cmd x snap spec w))"
proof -
  have "EvExec (fst (buildCmdArgs x snap spec)) (snd (buildCmdArgs x snap spec))
        (PluginBuildPath snap) (snapshot_Env x snap @ map env_entry (Env (Go spec)))
      \<in> set (snd (build_cmd x snap spec w))"
    by (simp add: build_cmd_def appendEnv_eq logf_def Let_def split: prod.splits option.splits)
  moreover have "env_lookup (appendEnv pairs env) k = Some v"
    if "distinct (map fst pairs)" "\<forall>kv\<in>set pairs. CHR ''='' \<notin> set (fst kv)"
      "(k, v) \<in> set pairs"
    using env_lookup_present [OF that] by (simp add: appendEnv_eq env_lookup_append)
  ultimately show ?thesis
    by (auto simp: appendEnv_eq)
qed

theorem appendEnv_snapshot_then_explicit_witness:
  "distinct (map fst [(''GOOS'', ''linux'')])
   \<and> CHR ''='' \<notin> set ''GOOS''
   \<and> (''GOOS'', ''linux'') \<in> set [(''GOOS'', ''linux'')]
   \<and> appendEnv [(''GOOS'', ''linux'')] [''GOOS=darwin'', ''PATH=/bin'']
       = [''GOOS=darwin'', ''PATH=/bin'', ''GOOS=linux'']
   \<and> env_lookup [''GOOS=darwin'', ''PATH=/bin''] ''GOOS'' = Some ''darwin''
   \<and> env_lookup (appendEnv [(''GOOS'', ''linux'')] [''GOOS=darwin'', ''PATH=/bin'']) ''GOOS''
       = Some ''linux''"
  using appendEnv_snapshot_then_explicit
    [where pairs = "[(''GOOS'', ''linux'')]" and env = "[''GOOS=darwin'', ''PATH=/bin'']"
       and k = "''GOOS''" and v = "''linux''"]
  by (simp add: env_entry_def entry_key_def entry_value_def)

subsection \<open>Validation\<close>

text \<open>
  C9. When the specification, after the option hooks and \<^verbatim>\<open>Init\<close>, fails
  \<^verbatim>\<open>Validate\<close>, \<^verbatim>\<open>Service.Build\<close> returns no module and that error, and the world is
  the one it started from: nothing was packed, no snapshot was made, no toolchain was
  installed, nothing was delegated, no compiler ran. The top-level \<^verbatim>\<open>pgo.Build\<close> returns
  the error of its own options' validation, or else the service's validation error, with
  the world unchanged as well.
\<close>

theorem Build_validation_failure_is_terminal:
  "(build_Validate x (build_Init x (fold (\<lambda>opt b. opt b) opts buildSpec)) = Some e
      \<longrightarrow> Build x s buildSpec opts w =
            ((None, Some e), build_Init x (fold (\<lambda>opt b. opt b) opts buildSpec), w))
   \<and> (options_Validate api (options_Init api option) = Some e
      \<longrightarrow> pgo_Build x api wla option opts w = (Some e, w))
   \<and> (options_Validate api (options_Init api option) = None
       \<and> build_Validate x (build_Init x (fold (\<lambda>opt b. opt b) opts
            (options_buildSpec api (options_Init api option)))) = Some e
      \<longrightarrow> pgo_Build x api wla option opts w = (Some e, w))"
  by (simp add: Build_def pgo_Build_def Let_def)

theorem Build_validation_failure_is_terminal_witness:
  "build_Validate a_collab (build_Init a_collab (fold (\<lambda>opt b. opt b) [] (a_spec\<lparr>Name := []\<rparr>)))
     = Some (ErrCollaborator ''name was empty'')
   \<and> Build a_collab a_service (a_spec\<lparr>Name := []\<rparr>) [] []
     = ((None, Some (ErrCollaborator ''name was empty'')), a_spec\<lparr>Name := []\<rparr>, [])
   \<and> options_Validate a_options_api (options_Init a_options_api (a_spec\<lparr>Name := []\<rparr>)) = None
   \<and> pgo_Build a_collab a_options_api (\<lambda>c. c) (a_spec\<lparr>Name := []\<rparr>) [] []
     = (Some (ErrCollaborator ''name was empty''), [])
   \<and> options_Validate a_options_api
       (options_Init a_options_api (a_spec\<lparr>Source := \<lparr>Data = [], Location = []\<rparr>\<rparr>))
     = Some (ErrCollaborator ''source was empty'')
   \<and> pgo_Build a_collab a_options_api (\<lambda>c. c)
       (a_spec\<lparr>Source := \<lparr>Data = [], Location = []\<rparr>\<rparr>) [] []
     = (Some (ErrCollaborator ''source was empty''), [])"
  using Build_validation_failure_is_terminal
    [where x = a_collab and opts = "[]" and buildSpec = "a_spec\<lparr>Name := []\<rparr>"
       and e = "ErrCollaborator ''name was empty''" and s = a_service and w = "[]"
       and api = a_options_api and option = "a_spec\<lparr>Name := []\<rparr>"
       and wla = "\<lambda>c. c"]
    Build_validation_failure_is_terminal
    [where x = a_collab and opts = "[]" and buildSpec = a_spec
       and e = "ErrCollaborator ''source was empty''" and s = a_service and w = "[]"
       and api = a_options_api
       and option = "a_spec\<lparr>Source := \<lparr>Data = [], Location = []\<rparr>\<rparr>"
       and wla = "\<lambda>c. c"]
  by (simp add: a_collab_def a_options_api_def a_spec_def)

subsection \<open>Delegation\<close>

text \<open>
  C1. When the validated specification enters the delegation path (the runtime check
  failed, or the flag \<^verbatim>\<open>EnsureTheSameOs\<close> is set), \<^verbatim>\<open>Build\<close> is
  \<^verbatim>\<open>delegateBuildOrFail\<close>, and the specification it leaves behind is the validated one
  with the flag cleared, whether or not a delegation is found: the flag is cleared before
  the registry is searched. The search is the first thing the path does to the world.
  Every specification forwarded to a remote endpoint, and every one handed to the
  container bring-up, is that cleared specification: its flag is false.
\<close>

theorem Build_delegation_clears_flag:
  assumes "spec = build_Init x (fold (\<lambda>opt b. opt b) opts buildSpec)"
    and "build_Validate x spec = None"
    and "ValidateOsAndArch (CfgRuntime (cfg s)) (Runtime (Go spec)) \<noteq> None
         \<or> EnsureTheSameOs (Go spec)"
    and "Build x s buildSpec opts w = (res, spec', w')"
  shows "Build x s buildSpec opts w =
           delegateBuildOrFail x s spec
             (ValidateOsAndArch (CfgRuntime (cfg s)) (Runtime (Go spec))) w
         \<and> spec' = spec\<lparr>Go := (Go spec)\<lparr>EnsureTheSameOs := False\<rparr>\<rparr>
         \<and> \<not> EnsureTheSameOs (Go spec')
         \<and> take (Suc (length w)) w' = w @ [EvMatch (Runtime (Go spec'))]
         \<and> (\<forall>u sp. EvClientBuild u sp \<in> set (drop (length w) w')
               \<longrightarrow> sp = spec' \<and> \<not> EnsureTheSameOs (Go sp))
         \<and> (\<forall>d sp. EvRunDocker d sp \<in> set (drop (length w) w')
               \<longrightarrow> sp = spec' \<and> \<not> EnsureTheSameOs (Go sp))"
  using assms
  by (auto simp: Build_def delegateBuildOrFail_def ensureDocker_def logf_def Let_def
      split: option.splits if_splits prod.splits)

theorem Build_delegation_clears_flag_witness:
  "build_Validate a_collab
     (a_spec\<lparr>Go := (Go a_spec)\<lparr>Runtime := darwin_arm64, EnsureTheSameOs := True\<rparr>\<rparr>) = None
   \<and> EnsureTheSameOs (Go (a_spec\<lparr>Go := (Go a_spec)\<lparr>Runtime := darwin_arm64, EnsureTheSameOs := True\<rparr>\<rparr>))
   \<and> Build a_collab a_service
         (a_spec\<lparr>Go := (Go a_spec)\<lparr>Runtime := darwin_arm64, EnsureTheSameOs := True\<rparr>\<rparr>) [] []
       = ((Some \<lparr>Mode = ''plugin'', ModuleData = ''Mach-O'',
                 Info = \<lparr>Scn = 7, InfoRuntime = darwin_arm64, InfoName = ''fee''\<rparr>\<rparr>, None),
          a_spec\<lparr>Go := (Go a_spec)\<lparr>Runtime := darwin_arm64, EnsureTheSameOs := False\<rparr>\<rparr>,
          [EvMatch darwin_arm64, EvIsUp ''http://darwin'', EvLogf ''%v is up\<newline>'',
           EvClientBuild ''http://darwin''
             (a_spec\<lparr>Go := (Go a_spec)\<lparr>Runtime := darwin_arm64, EnsureTheSameOs := False\<rparr>\<rparr>)])
   \<and> \<not> EnsureTheSameOs
         (Go (a_spec\<lparr>Go := (Go a_spec)\<lparr>Runtime := darwin_arm64, EnsureTheSameOs := False\<rparr>\<rparr>))"
  using Build_delegation_clears_flag
    [where x = a_collab and opts = "[]" and s = a_service and w = "[]"
       and buildSpec = "a_spec\<lparr>Go := (Go a_spec)\<lparr>Runtime := darwin_arm64, EnsureTheSameOs := True\<rparr>\<rparr>"
       and spec = "a_spec\<lparr>Go := (Go a_spec)\<lparr>Runtime := darwin_arm64, EnsureTheSameOs := True\<rparr>\<rparr>"]
  by (simp add: setting_defs service_defs Let_def)

text \<open>
  C4. When the validated specification asks for a runtime whose OS or architecture
  differs from the host's and the registry has no delegation for it, \<^verbatim>\<open>Build\<close> returns
  no module and the runtime-mismatch error, and all it did to the world is the registry
  search: no snapshot, no toolchain install, no compiler. (The flag need not be unset
  for this.)
\<close>

theorem Build_mismatch_without_delegation:
  assumes "spec = build_Init x (fold (\<lambda>opt b. opt b) opts buildSpec)"
    and "build_Validate x spec = None"
    and "Os (CfgRuntime (cfg s)) \<noteq> Os (Runtime (Go spec))
         \<or> Arch (CfgRuntime (cfg s)) \<noteq> Arch (Runtime (Go spec))"
    and "delegations_Match x (delegations (cfg s)) (Runtime (Go spec)) = None"
  shows "Build x s buildSpec opts w =
           ((None, Some (ErrRuntimeMismatch (CfgRuntime (cfg s)) (Runtime (Go spec)))),
            spec\<lparr>Go := (Go spec)\<lparr>EnsureTheSameOs := False\<rparr>\<rparr>,
            w @ [EvMatch (Runtime (Go spec))])"
  using assms
  by (auto simp: Build_def delegateBuildOrFail_def ValidateOsAndArch_def Let_def)

theorem Build_mismatch_without_delegation_witness:
  "build_Validate a_collab
     (a_spec\<lparr>Go := (Go a_spec)\<lparr>Runtime := \<lparr>Os = ''windows'', Arch = ''amd64''\<rparr>\<rparr>\<rparr>) = None
   \<and> Os (CfgRuntime (cfg a_service)) \<noteq> ''windows''
   \<and> delegations_Match a_collab (delegations (cfg a_service))
         \<lparr>Os = ''windows'', Arch = ''amd64''\<rparr> = None
   \<and> Build a_collab a_service
         (a_spec\<lparr>Go := (Go a_spec)\<lparr>Runtime := \<lparr>Os = ''windows'', Arch = ''amd64''\<rparr>\<rparr>\<rparr>) [] []
       = ((None, Some (ErrRuntimeMismatch linux_amd64 \<lparr>Os = ''windows'', Arch = ''amd64''\<rparr>)),
          a_spec\<lparr>Go := (Go a_spec)\<lparr>Runtime := \<lparr>Os = ''windows'', Arch = ''amd64''\<rparr>\<rparr>\<rparr>,
          [EvMatch \<lparr>Os = ''windows'', Arch = ''amd64''\<rparr>])"
  using Build_mismatch_without_delegation
    [where x = a_collab and opts = "[]" and s = a_service and w = "[]"
       and buildSpec = "a_spec\<lparr>Go := (Go a_spec)\<lparr>Runtime := \<lparr>Os = ''windows'', Arch = ''amd64''\<rparr>\<rparr>\<rparr>"
       and spec = "a_spec\<lparr>Go := (Go a_spec)\<lparr>Runtime := \<lparr>Os = ''windows'', Arch = ''amd64''\<rparr>\<rparr>\<rparr>"]
  by (simp add: setting_defs)

subsection \<open>Module or error\<close>

text \<open>
  The local build ends with a module and no error, or with no module and an error.
\<close>

lemma Build_compile_module_or_error:
  "(\<exists>m. fst (Build_compile x s spec w) = (Some m, None))
   \<or> (\<exists>e. fst (Build_compile x s spec w) = (None, Some e))"
  by (simp add: Build_compile_def Let_def split: prod.splits option.splits sum.splits)

lemma Build_local_module_or_error:
  "(\<exists>m. fst (Build_local x s spec w) = (Some m, None))
   \<or> (\<exists>e. fst (Build_local x s spec w) = (None, Some e))"
  using Build_compile_module_or_error
  by (simp add: Build_local_def split: sum.splits)

text \<open>
  The delegation path does not: \<^verbatim>\<open>delegateBuildOrFail\<close> returns the error it was
  given when no delegation matches, and \<^verbatim>\<open>Build\<close> gives it \<^verbatim>\<open>nil\<close> when the runtime
  check succeeded and only the flag sent it there.
\<close>

lemma Build_forced_without_delegation:
  assumes "spec = build_Init x (fold (\<lambda>opt b. opt b) opts buildSpec)"
    and "build_Validate x spec = None"
    and "Os (Runtime (Go spec)) = Os (CfgRuntime (cfg s))"
    and "Arch (Runtime (Go spec)) = Arch (CfgRuntime (cfg s))"
    and "EnsureTheSameOs (Go spec)"
    and "delegations_Match x (delegations (cfg s)) (Runtime (Go spec)) = None"
  shows "fst (Build x s buildSpec opts w) = (None, None)"
  using assms
  by (simp add: Build_def delegateBuildOrFail_def ValidateOsAndArch_def Let_def)

text \<open>
  C2. The claim is that \<^verbatim>\<open>Build\<close> never returns a \<^verbatim>\<open>nil\<close> module with a \<^verbatim>\<open>nil\<close>
  error. On a Linux host whose registry holds a Darwin delegation only, a valid
  specification for the host's own runtime with \<^verbatim>\<open>EnsureTheSameOs\<close> set gets exactly
  that: no module, no error, after one registry search.
\<close>

theorem Build_forced_delegation_no_match:
  "Build a_collab a_service (a_spec\<lparr>Go := (Go a_spec)\<lparr>EnsureTheSameOs := True\<rparr>\<rparr>) [] []
     = ((None, None), a_spec, [EvMatch linux_amd64])"
  by (simp add: Build_def delegateBuildOrFail_def ValidateOsAndArch_def Let_def
      a_collab_def a_service_def a_spec_def linux_amd64_def darwin_builder_def darwin_arm64_def)

theorem Build_forced_delegation_no_match_witness:
  "build_Validate a_collab (a_spec\<lparr>Go := (Go a_spec)\<lparr>EnsureTheSameOs := True\<rparr>\<rparr>) = None
   \<and> fst (Build a_collab a_service
             (a_spec\<lparr>Go := (Go a_spec)\<lparr>EnsureTheSameOs := True\<rparr>\<rparr>) [] [])
       = (None, None)"
  using Build_forced_delegation_no_match
  by (simp add: a_collab_def a_spec_def)

subsection \<open>The local build leaves the registry alone\<close>

lemma adds_only_iff: "adds_only P w w' \<longleftrightarrow> (\<exists>evs. w' = w @ evs \<and> list_all P evs)"
proof
  assume "adds_only P w w'"
  then have "w' = w @ drop (length w) w'" "list_all P (drop (length w) w')"
    by (simp_all add: adds_only_def) (metis append_take_drop_id)
  then show "\<exists>evs. w' = w @ evs \<and> list_all P evs" by blast
next
  assume "\<exists>evs. w' = w @ evs \<and> list_all P evs"
  then show "adds_only P w w'" by (auto simp: adds_only_def)
qed

lemma adds_only_refl: "adds_only P w w"
  by (simp add: adds_only_def)

lemma adds_only_snoc: "adds_only P w w' \<Longrightarrow> P e \<Longrightarrow> adds_only P w (w' @ [e])"
  by (auto simp: adds_only_iff)

lemma adds_only_trans: "adds_only P w w' \<Longrightarrow> adds_only P w' w'' \<Longrightarrow> adds_only P w w''"
  by (auto simp: adds_only_iff)

lemma ensureGo_local: "adds_only local_event w (snd (ensureGo x s snap v w))"
  by (simp add: ensureGo_def logf_def Let_def adds_only_def is_delegation_event_def
      split: option.splits)

lemma build_cmd_local: "adds_only local_event w (snd (build_cmd x snap spec w))"
  by (simp add: build_cmd_def logf_def Let_def adds_only_def is_delegation_event_def
      split: option.splits prod.splits)

lemma processSource_local:
  "adds_only local_event w (snd (snd (processSource x rd parent info snap replace w)))"
  by (simp add: processSource_def io_ReadAll_def Let_def adds_only_def is_delegation_event_def
      split: option.splits sum.splits)

lemma onFile_local:
  "adds_only local_event w (snd (snd (onFile x snap mode parent info rd w)))"
  by (simp add: onFile_def Let_def processSource_local adds_only_refl)

lemma unpack_items_local:
  assumes "\<And>parent info rd sn w0.
    adds_only local_event w0 (snd (snd (onEntry parent info rd sn w0)))"
  shows "adds_only local_event w (snd (snd (unpack_items x dest onMod onEntry items snap w)))"
proof (induction items arbitrary: snap w)
  case Nil
  show ?case by (simp add: adds_only_refl)
next
  case (Cons it items)
  show ?case
  proof (cases it)
    case (ModItem m)
    with Cons show ?thesis by simp
  next
    case (FileItem parent info rd)
    obtain info' rd' err snap' w'
      where r: "onEntry parent info rd snap w = ((info', rd', err), snap', w')"
      by (metis prod_cases3)
    have a: "adds_only local_event w w'"
      using assms [of w parent info rd snap] r by simp
    have b: "adds_only local_event w (w' @ [EvStage dest parent info' c])" for c
      using a by (rule adds_only_snoc) (simp add: is_delegation_event_def)
    have c: "adds_only local_event w
               (snd (snd (unpack_items x dest onMod onEntry items snap'
                            (w' @ [EvStage dest parent info' c]))))" for c
      using b Cons.IH by (rule adds_only_trans)
    show ?thesis
      using a b c by (simp add: FileItem r io_ReadAll_def split: option.splits)
  qed
qed

lemma Unpack_local:
  assumes "\<And>parent info rd sn w0.
    adds_only local_event w0 (snd (snd (onEntry parent info rd sn w0)))"
  shows "adds_only local_event w (snd (snd (Unpack x src dest onMod onEntry snap w)))"
proof -
  have "adds_only local_event w (w @ [EvDecode])"
    by (simp add: adds_only_def is_delegation_event_def)
  moreover have "adds_only local_event (w @ [EvDecode])
      (snd (snd (unpack_items x dest onMod onEntry items snap (w @ [EvDecode]))))" for items
    using assms by (rule unpack_items_local)
  ultimately show ?thesis
    by (auto simp: Unpack_def split: sum.splits intro: adds_only_trans)
qed

lemma Build_compile_local:
  "adds_only local_event w1 (snd (snd (Build_compile x s sp w1)))"
proof -
  obtain mode pkg where mp: "GetModeWithSpec x sp = (mode, pkg)"
    by (cases "GetModeWithSpec x sp")
  define snap where "snap = NewSnapshot x w1 mode pkg (Go sp)"
  define w2 where "w2 = w1 @ [EvNewSnapshot mode pkg]"
  have a2: "adds_only local_event w1 w2"
    by (simp add: w2_def adds_only_def is_delegation_event_def)
  obtain e3 w3 where g: "ensureGo x s snap (Version (Go sp)) w2 = (e3, w3)"
    by (cases "ensureGo x s snap (Version (Go sp)) w2")
  have a3: "adds_only local_event w1 w3"
    using a2 ensureGo_local [of w2 x s snap "Version (Go sp)"] g
    by (auto intro: adds_only_trans)
  obtain e4 snap1 w4 where u: "Unpack x (Source sp) (BasePluginURL x snap)
                       (\<lambda>m sn. AppendMod sn m)
                       (\<lambda>parent info rd sn. onFile x sn mode parent info rd)
                       snap w3 = (e4, snap1, w4)"
    by (metis prod_cases3)
  have "adds_only local_event w3 (snd (snd (Unpack x (Source sp) (BasePluginURL x snap)
                       (\<lambda>m sn. AppendMod sn m)
                       (\<lambda>parent info rd sn. onFile x sn mode parent info rd)
                       snap w3)))"
    by (rule Unpack_local) (rule onFile_local)
  with u a3 have a4: "adds_only local_event w1 w4"
    by (auto intro: adds_only_trans)
  obtain e5 w5 where b: "build_cmd x snap1 sp w4 = (e5, w5)"
    by (cases "build_cmd x snap1 sp w4")
  have a5: "adds_only local_event w1 w5"
    using a4 build_cmd_local [of w4 x snap1 sp] b by (auto intro: adds_only_trans)
  have a6: "adds_only local_event w1 (w5 @ [EvDownload (PluginDestPath snap1)])"
    using a5 by (rule adds_only_snoc) (simp add: is_delegation_event_def)
  show ?thesis
    using a3 a4 a5 a6
    by (simp add: Build_compile_def mp Let_def snap_def [symmetric] w2_def [symmetric] g u b
        split: option.splits sum.splits)
qed

lemma Build_local_local:
  "adds_only local_event w (snd (snd (Build_local x s spec w)))"
proof -
  have pack: "adds_only local_event w (w @ [EvPack src])" for src
    by (simp add: adds_only_def is_delegation_event_def)
  have "adds_only local_event w
          (snd (snd (Build_compile x s sp (w @ [EvPack src]))))" for sp src
    using pack Build_compile_local by (rule adds_only_trans)
  with pack show ?thesis
    by (simp add: Build_local_def Build_compile_local split: sum.splits)
qed

text \<open>
  C3. When the validated specification asks for the host's own OS and architecture and
  the flag \<^verbatim>\<open>EnsureTheSameOs\<close> is not set, \<^verbatim>\<open>Build\<close> is the local build, and the world
  it leaves is the one it started from followed by events none of which belongs to the
  delegation path: in particular the registry's \<^verbatim>\<open>Match\<close> is never called.
\<close>

theorem Build_same_runtime_stays_local:
  assumes "spec = build_Init x (fold (\<lambda>opt b. opt b) opts buildSpec)"
    and "build_Validate x spec = None"
    and "Os (Runtime (Go spec)) = Os (CfgRuntime (cfg s))"
    and "Arch (Runtime (Go spec)) = Arch (CfgRuntime (cfg s))"
    and "\<not> EnsureTheSameOs (Go spec)"
  shows "Build x s buildSpec opts w = Build_local x s spec w
         \<and> take (length w) (snd (snd (Build x s buildSpec opts w))) = w
         \<and> (\<forall>e \<in> set (drop (length w) (snd (snd (Build x s buildSpec opts w)))).
               \<not> is_delegation_event e)
         \<and> (\<forall>r. EvMatch r \<notin> set (drop (length w) (snd (snd (Build x s buildSpec opts w)))))"
proof -
  have eq: "Build x s buildSpec opts w = Build_local x s spec w"
    using assms by (simp add: Build_def ValidateOsAndArch_def Let_def)
  have a: "adds_only local_event w (snd (snd (Build x s buildSpec opts w)))"
    unfolding eq by (rule Build_local_local)
  then have "\<forall>e \<in> set (drop (length w) (snd (snd (Build x s buildSpec opts w)))).
               \<not> is_delegation_event e"
    by (simp add: adds_only_def list_all_iff)
  moreover from this
  have "\<forall>r. EvMatch r \<notin> set (drop (length w) (snd (snd (Build x s buildSpec opts w))))"
    by (auto simp: is_delegation_event_def)
  ultimately show ?thesis
    using eq a by (simp add: adds_only_def)
qed

theorem Build_same_runtime_stays_local_witness:
  "build_Validate a_collab (build_Init a_collab (fold (\<lambda>opt b. opt b) [] a_spec)) = None
   \<and> Os (Runtime (Go a_spec)) = Os (CfgRuntime (cfg a_service))
   \<and> Arch (Runtime (Go a_spec)) = Arch (CfgRuntime (cfg a_service))
   \<and> \<not> EnsureTheSameOs (Go a_spec)
   \<and> fst (Build a_collab a_service a_spec [] [])
       = (Some \<lparr>Mode = ''plugin'', ModuleData = ''ELF'',
                Info = \<lparr>Scn = 1000, InfoRuntime = linux_amd64, InfoName = ''fee''\<rparr>\<rparr>, None)
   \<and> filter is_delegation_event (snd (snd (Build a_collab a_service a_spec [] []))) = []"
  using Build_same_runtime_stays_local
    [where x = a_collab and opts = "[]" and buildSpec = a_spec and spec = a_spec
       and s = a_service and w = "[]"]
  by (simp add: setting_defs service_defs Let_def)

subsection \<open>The toolchain\<close>

text \<open>
  C5, as amended. When the compiler binary exists at the version's path,
  \<^verbatim>\<open>ensureGo\<close> returns success after the existence check and its log line alone: no
  directory is created and nothing is copied. When two calls follow one another and the
  binary exists at the time of the second call, the second call is such a hit, and the
  two calls together create the directory at most once and copy at most once. (Nothing
  is said of a second call that still finds no binary: the failed install is tried
  again.)
\<close>

theorem ensureGo_hit_is_free_and_repeat_after_install:
  assumes "binary = path_Join x (path_Join x (GoDir snap) (''go'' @ version)) ''go''"
  shows "(fs_Exists x w binary \<longrightarrow>
            ensureGo x s snap version w
              = (None, w @ [EvExists binary, EvLogf ''checking binary[%v]: %v\<newline>'']))
         \<and> (ensureGo x s snap version w = (ra, wa) \<and> fs_Exists x wa binary
             \<and> ensureGo x s snap version wa = (rb, wb)
            \<longrightarrow> rb = None
                \<and> wb = wa @ [EvExists binary, EvLogf ''checking binary[%v]: %v\<newline>'']
                \<and> length (filter is_mkdir (drop (length w) wb)) \<le> 1
                \<and> length (filter is_copy (drop (length w) wb)) \<le> 1)"
proof -
  have hit: "ensureGo x s snap version w0
              = (None, w0 @ [EvExists binary, EvLogf ''checking binary[%v]: %v\<newline>''])"
    if "fs_Exists x w0 binary" for w0
    using that assms by (simp add: ensureGo_def logf_def Let_def)
  have one: "length (filter is_mkdir (drop (length w) (snd (ensureGo x s snap version w)))) \<le> 1
             \<and> length (filter is_copy (drop (length w) (snd (ensureGo x s snap version w)))) \<le> 1
             \<and> length w \<le> length (snd (ensureGo x s snap version w))"
    by (simp add: ensureGo_def logf_def Let_def is_mkdir_def is_copy_def split: option.splits)
  have "rb = None \<and> wb = wa @ [EvExists binary, EvLogf ''checking binary[%v]: %v\<newline>'']
        \<and> length (filter is_mkdir (drop (length w) wb)) \<le> 1
        \<and> length (filter is_copy (drop (length w) wb)) \<le> 1"
    if a: "ensureGo x s snap version w = (ra, wa)" and b: "fs_Exists x wa binary"
      and c: "ensureGo x s snap version wa = (rb, wb)"
  proof -
    from hit [OF b] c have r: "rb = None"
      and wb: "wb = wa @ [EvExists binary, EvLogf ''checking binary[%v]: %v\<newline>'']"
      by simp_all
    from one a have "length (filter is_mkdir (drop (length w) wa)) \<le> 1"
      "length (filter is_copy (drop (length w) wa)) \<le> 1" "length w \<le> length wa"
      by simp_all
    then show ?thesis
      using r wb by (simp add: is_mkdir_def is_copy_def)
  qed
  with hit show ?thesis by blast
qed

theorem ensureGo_hit_is_free_and_repeat_after_install_witness:
  "fs_Exists a_collab
      [EvExists ''/opt/sdk/go1.17/go'', EvLogf ''checking binary[%v]: %v\<newline>'',
       EvMkdirAll ''/opt/sdk/go1.17'', EvLogf ''installing go %v %v %v\<newline>'',
       EvCopy ''https:dl.google.com/go/go1.17.linux-amd64.tar.gz/tar://'' ''/opt/sdk/go1.17'']
      ''/opt/sdk/go1.17/go''
   \<and> ensureGo a_collab a_service a_snapshot ''1.17'' []
       = (None,
          [EvExists ''/opt/sdk/go1.17/go'', EvLogf ''checking binary[%v]: %v\<newline>'',
           EvMkdirAll ''/opt/sdk/go1.17'', EvLogf ''installing go %v %v %v\<newline>'',
           EvCopy ''https:dl.google.com/go/go1.17.linux-amd64.tar.gz/tar://'' ''/opt/sdk/go1.17''])
   \<and> ensureGo a_collab a_service a_snapshot ''1.17''
         (snd (ensureGo a_collab a_service a_snapshot ''1.17'' []))
       = (None,
          [EvExists ''/opt/sdk/go1.17/go'', EvLogf ''checking binary[%v]: %v\<newline>'',
           EvMkdirAll ''/opt/sdk/go1.17'', EvLogf ''installing go %v %v %v\<newline>'',
           EvCopy ''https:dl.google.com/go/go1.17.linux-amd64.tar.gz/tar://'' ''/opt/sdk/go1.17'',
           EvExists ''/opt/sdk/go1.17/go'', EvLogf ''checking binary[%v]: %v\<newline>''])
   \<and> length (filter is_copy (snd (ensureGo a_collab a_service a_snapshot ''1.17''
         (snd (ensureGo a_collab a_service a_snapshot ''1.17'' []))))) = 1"
  using ensureGo_hit_is_free_and_repeat_after_install
    [where x = a_collab and s = a_service and snap = a_snapshot and version = "''1.17''"
       and binary = "''/opt/sdk/go1.17/go''" and w = "[]" and ra = None and rb = None
       and wa = "snd (ensureGo a_collab a_service a_snapshot ''1.17'' [])"
       and wb = "snd (ensureGo a_collab a_service a_snapshot ''1.17''
                   (snd (ensureGo a_collab a_service a_snapshot ''1.17'' [])))"]
    ensureGo_hit_is_free_and_repeat_after_install
    [where x = a_collab and s = a_service and snap = a_snapshot and version = "''1.17''"
       and binary = "''/opt/sdk/go1.17/go''"
       and w = "snd (ensureGo a_collab a_service a_snapshot ''1.17'' [])"]
  by (simp add: setting_defs service_defs Let_def)

text \<open>
  The claim as stated, for every two calls in sequence, fails: with the network down the
  first call creates the directory, fails to copy and returns the error; the second call
  finds no binary and does both again.
\<close>

theorem ensureGo_twice_offline_counterexample:
  "fst (ensureGo offline_collab a_service a_snapshot ''1.17'' [])
     = Some (ErrCollaborator ''network is unreachable'')
   \<and> length (filter is_mkdir (snd (ensureGo offline_collab a_service a_snapshot ''1.17''
         (snd (ensureGo offline_collab a_service a_snapshot ''1.17'' []))))) = 2
   \<and> length (filter is_copy (snd (ensureGo offline_collab a_service a_snapshot ''1.17''
         (snd (ensureGo offline_collab a_service a_snapshot ''1.17'' []))))) = 2
   \<and> \<not> length (filter is_copy (snd (ensureGo offline_collab a_service a_snapshot ''1.17''
         (snd (ensureGo offline_collab a_service a_snapshot ''1.17'' []))))) \<le> 1"
  by (simp add: setting_defs service_defs Let_def)

subsection \<open>Source files\<close>

text \<open>
  C6. When \<^verbatim>\<open>processSource\<close> succeeds on a file and the content it returns (rewritten
  or not) contains \<^verbatim>\<open>package main\<close>, the file's path, parent joined with name, is among
  the snapshot's entry points afterwards, and the inferred build mode of that snapshot is
  \<open>program\<close>, unless the snapshot's mode is \<open>plugin\<close>, which stands.
\<close>

theorem processSource_records_entry_point:
  assumes "processSource x rd parent info snap replace w = ((info', rd', None), snap', w')"
    and "bytes_Contains (pending rd') mainFragment"
  shows "path_Join x parent (FileName info) \<in> set (mains snap')
         \<and> inferredMode snap' = (if buildMode snap = ''plugin'' then ''plugin'' else ''program'')"
  using assms
  by (auto simp: processSource_def io_ReadAll_def NopCloser_NewReader_def AppendMain_def
      inferredMode_def Let_def split: option.splits sum.splits if_splits)

theorem processSource_records_entry_point_witness:
  "processSource a_collab main_go_reader ''fee'' main_go (a_snapshot\<lparr>buildMode := ''exec''\<rparr>) False []
     = ((main_go, NopCloser_NewReader ''package main func main() {}'', None),
        a_snapshot\<lparr>buildMode := ''exec'', mains := [''fee/main.go'']\<rparr>, [])
   \<and> bytes_Contains (pending (NopCloser_NewReader ''package main func main() {}'')) mainFragment
   \<and> ''fee/main.go'' \<in> set (mains (a_snapshot\<lparr>buildMode := ''exec'', mains := [''fee/main.go'']\<rparr>))
   \<and> inferredMode (a_snapshot\<lparr>buildMode := ''exec'', mains := [''fee/main.go'']\<rparr>) = ''program''"
  using processSource_records_entry_point
    [where x = a_collab and rd = main_go_reader and parent = "''fee''" and info = main_go
       and snap = "a_snapshot\<lparr>buildMode := ''exec''\<rparr>" and replace = False and w = "[]"
       and info' = main_go and rd' = "NopCloser_NewReader ''package main func main() {}''"
       and snap' = "a_snapshot\<lparr>buildMode := ''exec'', mains := [''fee/main.go'']\<rparr>"
       and w' = "[]"]
  by (simp add: setting_defs service_defs Let_def)

text \<open>
  C7. The callback calls \<^verbatim>\<open>replaceDependencies\<close> exactly when the file's extension is
  \<^verbatim>\<open>.go\<close>, \<^verbatim>\<open>.mod\<close> or \<^verbatim>\<open>.sum\<close>, the build mode is \<open>plugin\<close> and the file could
  be read; the call is on the file's content, and its result is the content returned. In
  any other mode a file with one of these extensions is read and scanned for the entry
  point marker, and the content returned is the content read.
\<close>

theorem onFile_rewrites_iff_plugin:
  "snd (snd (onFile x snap mode parent info rd w)) =
     (if path_Ext (FileName info) \<in> {''.go'', ''.mod'', ''.sum''} \<and> mode = ''plugin''
         \<and> failure rd = None
      then w @ [EvReplaceDependencies (pending rd)] else w)
   \<and> (path_Ext (FileName info) \<in> {''.go'', ''.mod'', ''.sum''} \<and> mode \<noteq> ''plugin''
       \<and> failure rd = None
      \<longrightarrow> onFile x snap mode parent info rd w =
            ((info, NopCloser_NewReader (pending rd), None),
             (if bytes_Contains (pending rd) mainFragment
              then AppendMain snap (path_Join x parent (FileName info)) else snap),
             w))
   \<and> (path_Ext (FileName info) \<in> {''.go'', ''.mod'', ''.sum''} \<and> mode = ''plugin''
       \<and> failure rd = None \<and> replaceDependencies x snap (pending rd) = Inr b
      \<longrightarrow> onFile x snap mode parent info rd w =
            ((info, NopCloser_NewReader b, None),
             (if bytes_Contains b mainFragment
              then AppendMain snap (path_Join x parent (FileName info)) else snap),
             w @ [EvReplaceDependencies (pending rd)]))"
  by (auto simp: onFile_def processSource_def io_ReadAll_def Let_def
      split: option.splits sum.splits)

theorem onFile_rewrites_iff_plugin_witness:
  "path_Ext (FileName main_go) = ''.go''
   \<and> failure main_go_reader = None
   \<and> replaceDependencies a_collab a_snapshot (pending main_go_reader)
       = Inr ''package main func main() {} // pinned''
   \<and> onFile a_collab a_snapshot ''plugin'' ''fee'' main_go main_go_reader []
       = ((main_go, NopCloser_NewReader ''package main func main() {} // pinned'', None),
          a_snapshot\<lparr>mains := [''fee/main.go'']\<rparr>,
          [EvReplaceDependencies ''package main func main() {}''])
   \<and> onFile a_collab a_snapshot ''exec'' ''fee'' main_go main_go_reader []
       = ((main_go, NopCloser_NewReader ''package main func main() {}'', None),
          a_snapshot\<lparr>mains := [''fee/main.go'']\<rparr>, [])
   \<and> snd (snd (onFile a_collab a_snapshot ''plugin'' ''fee'' readme_txt readme_reader [])) = []"
  using onFile_rewrites_iff_plugin
    [where x = a_collab and snap = a_snapshot and mode = "''plugin''" and parent = "''fee''"
       and info = main_go and rd = main_go_reader and w = "[]"
       and b = "''package main func main() {} // pinned''"]
    onFile_rewrites_iff_plugin
    [where x = a_collab and snap = a_snapshot and mode = "''exec''" and parent = "''fee''"
       and info = main_go and rd = main_go_reader and w = "[]"]
  by (simp add: setting_defs service_defs Let_def)

text \<open>
  C10. For a file whose extension is none of \<^verbatim>\<open>.go\<close>, \<^verbatim>\<open>.mod\<close>, \<^verbatim>\<open>.sum\<close> the
  callback returns the file information and the stream it was given, with the snapshot
  (so its entry points) and the world unchanged, whatever the file holds. Unpacking then
  stages the bytes of that very stream.
\<close>

theorem onFile_other_extension_passes_through:
  assumes "path_Ext (FileName info) \<notin> {''.go'', ''.mod'', ''.sum''}"
  shows "onFile x snap mode parent info rd w = ((info, rd, None), snap, w)
         \<and> (failure rd = None \<longrightarrow>
              unpack_items x dest onMod (\<lambda>parent info rd sn. onFile x sn mode parent info rd)
                (FileItem parent info rd # rest) snap w
              = (case fs_Upload x w dest parent info (pending rd) of
                   Some err \<Rightarrow> (Some err, snap, w @ [EvStage dest parent info (pending rd)])
                 | None \<Rightarrow>
                     unpack_items x dest onMod (\<lambda>parent info rd sn. onFile x sn mode parent info rd)
                       rest snap (w @ [EvStage dest parent info (pending rd)])))"
  using assms by (simp add: onFile_def io_ReadAll_def Let_def)

theorem onFile_other_extension_passes_through_witness:
  "path_Ext (FileName readme_txt) = ''.txt''
   \<and> bytes_Contains (pending readme_reader) mainFragment
   \<and> onFile a_collab a_snapshot ''plugin'' ''fee'' readme_txt readme_reader []
       = ((readme_txt, readme_reader, None), a_snapshot, [])
   \<and> unpack_items a_collab ''/tmp/build'' (\<lambda>m sn. AppendMod sn m)
        (\<lambda>parent info rd sn. onFile a_collab sn ''plugin'' parent info rd)
        [FileItem ''fee'' readme_txt readme_reader] a_snapshot []
       = (None, a_snapshot, [EvStage ''/tmp/build'' ''fee'' readme_txt ''package main''])"
  using onFile_other_extension_passes_through
    [where info = readme_txt and x = a_collab and snap = a_snapshot and mode = "''plugin''"
       and parent = "''fee''" and rd = readme_reader and w = "[]" and dest = "''/tmp/build''"
       and onMod = "\<lambda>m sn. AppendMod sn m" and rest = "[]"]
  by (simp add: setting_defs service_defs Let_def)

end
